theory Spec2Isabelle
  imports Complex_Main
begin

section \<open>GFPGAN v1 architecture: the SFT generator, ConvUpLayer and the component discriminator\<close>

text \<open>
  A shallow embedding of \<^verbatim>\<open>gfpgan/archs/gfpganv1_arch.py\<close>.

  The layer modules of the StyleGAN2 base library (style convolutions, to-RGB layers, the
  style MLP, \<^verbatim>\<open>ConvLayer\<close>) are not part of this repository: they are parameters of the
  model, total functions on tensors. What the file itself writes is modelled in full: the
  branching on the number of styles, truncation, latent expansion, the pairing loop, the
  SFT step with its guard, and every Python-level failure of these (an unbound local,
  arithmetic on \<^verbatim>\<open>None\<close>, an index out of range, an unpacking of the wrong arity, an
  empty random range).
\<close>

subsection \<open>Errors\<close>

text \<open>
  The exceptions the file can raise, by their class. The unbound-local error carries the
  name of the variable, which is what its message tells.
\<close>

datatype error =
    UnboundLocalError string
  | TypeError
  | IndexError
  | ValueError
  | RuntimeError
  | AttributeError
  | ZeroDivisionError
  | OverflowError

text \<open>Reading \<^verbatim>\<open>xs[i]\<close> for a non-negative index: out of range raises.\<close>

definition index :: "'a list \<Rightarrow> nat \<Rightarrow> error + 'a" where
  "index xs i = (if i < length xs then Inr (xs ! i) else Inl IndexError)"

text \<open>The slice \<^verbatim>\<open>xs[::2]\<close>; \<^verbatim>\<open>xs[1::2]\<close> is \<open>every_other (drop 1 xs)\<close>. A slice never fails.\<close>

fun every_other :: "'a list \<Rightarrow> 'a list" where
  "every_other [] = []"
| "every_other [x] = [x]"
| "every_other (x # y # xs) = x # every_other xs"

text \<open>
  \<^verbatim>\<open>random.randint(a, b)\<close> draws from the inclusive range \<open>a..b\<close> and raises on an empty
  range. The generator's raw output is the parameter \<open>raw\<close>; every value of the range is
  the image of some \<open>raw\<close>, and no other value is.
\<close>

definition randint :: "int \<Rightarrow> int \<Rightarrow> nat \<Rightarrow> error + int" where
  "randint a b raw = (if a \<le> b then Inr (a + int raw mod (b - a + 1)) else Inl ValueError)"

subsection \<open>Tensors\<close>

text \<open>
  A feature map \<open>(batch, C, H, W)\<close> is the list of its \<open>C\<close> channel slices (axis 1); a
  slice has type \<open>'a\<close> with the elementwise product and sum of its class. A condition
  tensor is a feature map too.

  A style is a 2-dimensional code \<open>(batch, dim)\<close>, of type \<open>'l\<close>, or a 3-dimensional
  per-layer code \<open>(batch, layers, dim)\<close>, the list of its layer slices (axis 1). A latent
  tensor is the list of its layer slices, so that \<^verbatim>\<open>latent[:, i]\<close> is \<open>index latent i\<close>.
\<close>

datatype 'l style = Style2d 'l | Style3d "'l list"

fun ndim :: "'l style \<Rightarrow> nat" where
  "ndim (Style2d v) = 2"
| "ndim (Style3d vs) = 3"

text \<open>
  Elementwise arithmetic of two feature maps, as the tensor library broadcasts it on the
  channel axis: equal channel counts combine pairwise, a single channel is repeated, and
  anything else is a shape error.
\<close>

definition broadcast :: "('a \<Rightarrow> 'a \<Rightarrow> 'a) \<Rightarrow> 'a list \<Rightarrow> 'a list \<Rightarrow> error + 'a list" where
  "broadcast f xs ys =
     (if length xs = length ys then Inr (map2 f xs ys)
      else if length xs = 1 then Inr (map (f (hd xs)) ys)
      else if length ys = 1 then Inr (map (\<lambda>x. f x (hd ys)) xs)
      else Inl RuntimeError)"

definition tmul :: "'a::times list \<Rightarrow> 'a list \<Rightarrow> error + 'a list" where
  "tmul xs ys = broadcast (\<lambda>x y. x * y) xs ys"

definition tadd :: "'a::plus list \<Rightarrow> 'a list \<Rightarrow> error + 'a list" where
  "tadd xs ys = broadcast (\<lambda>x y. x + y) xs ys"

text \<open>\<^verbatim>\<open>x * scale + shift\<close>: the product first, then the sum.\<close>

definition affine :: "'a::{times,plus} list \<Rightarrow> 'a list \<Rightarrow> 'a list \<Rightarrow> error + 'a list" where
  "affine x scale shift =
     (case tmul x scale of Inl e \<Rightarrow> Inl e | Inr m \<Rightarrow> tadd m shift)"

text \<open>
  \<^verbatim>\<open>torch.split(x, n, dim=1)\<close>: consecutive chunks of \<open>n\<close> channels, the last one
  shorter when \<open>n\<close> does not divide the channel count. A chunk size of 0 is accepted only
  for a tensor without channels, and a tensor without channels is one (empty) chunk.
\<close>

fun chunks_of :: "nat \<Rightarrow> 'a list \<Rightarrow> 'a list list" where
  "chunks_of n [] = []"
| "chunks_of n (x # xs) =
     (if n = 0 then [] else take n (x # xs) # chunks_of n (drop n (x # xs)))"

definition torch_split :: "'a list \<Rightarrow> nat \<Rightarrow> error + 'a list list" where
  "torch_split x n =
     (if n = 0 then (if x = [] then Inr [[]] else Inl RuntimeError)
      else if x = [] then Inr [[]]
      else Inr (chunks_of n x))"

text \<open>The tuple assignment \<^verbatim>\<open>a, b = chunks\<close> needs exactly two chunks.\<close>

fun unpack2 :: "'a list \<Rightarrow> error + ('a \<times> 'a)" where
  "unpack2 [a, b] = Inr (a, b)"
| "unpack2 _ = Inl ValueError"

subsection \<open>StyleGAN2GeneratorSFT\<close>

type_synonym ('a, 'l, 'n) style_conv = "'a list \<Rightarrow> 'l \<Rightarrow> 'n option \<Rightarrow> 'a list"
type_synonym ('a, 'l) to_rgb = "'a list \<Rightarrow> 'l \<Rightarrow> 'a list option \<Rightarrow> 'a list"

text \<open>
  The attributes of the generator object that \<^verbatim>\<open>forward\<close> reads. All but \<open>sft_half\<close>
  are set by the constructor of the base class \<^verbatim>\<open>StyleGAN2Generator\<close>, which is outside
  the repository: they are parameters here. \<open>noises\<close> holds the registered buffers
  \<^verbatim>\<open>noise0\<close>, \<^verbatim>\<open>noise1\<close>, ...
\<close>

record ('a, 'l, 'n) generator =
  num_layers :: nat
  num_latent :: nat
  sft_half :: bool
  style_mlp :: "'l style \<Rightarrow> 'l style"
  noises :: "'n list"
  constant_input :: "'a list"
  style_conv1 :: "('a, 'l, 'n) style_conv"
  to_rgb1 :: "('a, 'l) to_rgb"
  style_convs :: "('a, 'l, 'n) style_conv list"
  to_rgbs :: "('a, 'l) to_rgb list"

text \<open>
  Modelled from the spec: what the base class's constructor establishes. \<open>num_layers\<close>
  counts the style convolutions (the first one and the paired ones), there is one to-RGB
  layer per pair, one stored noise per style convolution, and the latent has one slice
  more than there are style convolutions.
\<close>

definition wf_generator :: "('a, 'l, 'n) generator \<Rightarrow> bool" where
  "wf_generator g =
     (num_layers g = 1 + length (style_convs g) \<and>
      length (style_convs g) = 2 * length (to_rgbs g) \<and>
      length (noises g) = num_layers g \<and>
      num_latent g = num_layers g + 1)"

text \<open>
  What the instrumented model records of a run, in order: each to-RGB application (with
  the latent index it reads) and, at each paired level, whether the SFT modulation was
  applied (with the scale and shift it used) or skipped.
\<close>

datatype 'a event =
    ToRGB nat
  | SFT nat "'a list" "'a list"
  | NoSFT nat

record ('a, 'l) forward_result =
  image :: "'a list"
  latent_out :: "'l list option"
  trace :: "'a event list"

text \<open>Lines 76-80: the noise list, one entry per style convolution.\<close>

definition resolve_noise ::
  "('a, 'l, 'n) generator \<Rightarrow> 'n option list option \<Rightarrow> bool \<Rightarrow> error + 'n option list" where
  "resolve_noise g noise randomize_noise =
     (case noise of
        Some ns \<Rightarrow> Inr ns
      | None \<Rightarrow>
          if randomize_noise then Inr (replicate (num_layers g) None)
          else if num_layers g \<le> length (noises g)
            then Inr (map Some (take (num_layers g) (noises g)))
            else Inl AttributeError)"

text \<open>
  Lines 82-86: \<^verbatim>\<open>truncation_latent + truncation * (style - truncation_latent)\<close> for each
  style, only under the guard \<^verbatim>\<open>truncation < 1\<close>. The centre is a 2-dimensional code,
  broadcast over the layers of a per-layer style; a missing centre is \<^verbatim>\<open>None\<close>, on which
  the subtraction raises as soon as there is a style to truncate.
\<close>

definition truncate :: "real \<Rightarrow> 'l::{plus,minus,scaleR} \<Rightarrow> 'l \<Rightarrow> 'l" where
  "truncate truncation c v = c + scaleR truncation (v - c)"

fun truncate_style :: "real \<Rightarrow> 'l::{plus,minus,scaleR} \<Rightarrow> 'l style \<Rightarrow> 'l style" where
  "truncate_style truncation c (Style2d v) = Style2d (truncate truncation c v)"
| "truncate_style truncation c (Style3d vs) = Style3d (map (truncate truncation c) vs)"

definition style_truncation ::
  "real \<Rightarrow> 'l::{plus,minus,scaleR} option \<Rightarrow> 'l style list \<Rightarrow> error + 'l style list" where
  "style_truncation truncation truncation_latent styles =
     (if truncation < 1 then
        (case truncation_latent of
           None \<Rightarrow> if styles = [] then Inr [] else Inl TypeError
         | Some c \<Rightarrow> Inr (map (truncate_style truncation c) styles))
      else Inr styles)"

text \<open>
  \<^verbatim>\<open>style.unsqueeze(1).repeat(1, k, 1)\<close>: \<open>k\<close> copies of a 2-dimensional style along a new
  layer axis. A negative count raises, and so does a 3-dimensional style, which has four
  axes after \<^verbatim>\<open>unsqueeze\<close> for the three repeat counts.
\<close>

fun repeat_layers :: "'l style \<Rightarrow> int \<Rightarrow> error + 'l list" where
  "repeat_layers (Style2d v) k = (if k < 0 then Inl RuntimeError else Inr (replicate (nat k) v))"
| "repeat_layers (Style3d vs) k = Inl RuntimeError"

text \<open>Lines 97-98: the injection index of style mixing, drawn when it is not given.\<close>

definition mixing_index :: "('a, 'l, 'n) generator \<Rightarrow> int option \<Rightarrow> nat \<Rightarrow> error + int" where
  "mixing_index g inject_index raw =
     (case inject_index of
        None \<Rightarrow> randint 1 (int (num_latent g) - 1) raw
      | Some k \<Rightarrow> Inr k)"

text \<open>
  Lines 88-101: the latent tensor. A single style of three dimensions is the latent as it
  is (the test \<^verbatim>\<open>ndim < 3\<close> sends only a \<open>Style3d\<close> there). With any other number of
  styles than one or two neither branch runs and \<^verbatim>\<open>latent\<close> stays unbound: its first
  use, on line 104, raises.
\<close>

definition get_latent ::
  "('a, 'l, 'n) generator \<Rightarrow> 'l style list \<Rightarrow> int option \<Rightarrow> nat \<Rightarrow> error + 'l list" where
  "get_latent g styles inject_index raw =
     (if length styles = 1 then
        (if ndim (styles ! 0) < 3 then repeat_layers (styles ! 0) (int (num_latent g))
         else (case styles ! 0 of Style3d vs \<Rightarrow> Inr vs | Style2d v \<Rightarrow> Inr [v]))
      else if length styles = 2 then
        (case mixing_index g inject_index raw of
           Inl e \<Rightarrow> Inl e
         | Inr k \<Rightarrow>
             (case repeat_layers (styles ! 0) k of
                Inl e \<Rightarrow> Inl e
              | Inr latent1 \<Rightarrow>
                  (case repeat_layers (styles ! 1) (int (num_latent g) - k) of
                     Inl e \<Rightarrow> Inl e
                   | Inr latent2 \<Rightarrow> Inr (latent1 @ latent2))))
      else Inl (UnboundLocalError ''latent''))"

text \<open>
  Lines 114-121: the SFT step at the level whose layer index is \<open>i\<close> (always at least 1
  in the loop, so that \<open>i - 1\<close> is a plain index). It returns the feature map and the
  event recorded in the branch taken.
\<close>

definition sft ::
  "('a::{times,plus}, 'l, 'n) generator \<Rightarrow> 'a list list \<Rightarrow> nat \<Rightarrow> 'a list
     \<Rightarrow> error + ('a list \<times> 'a event)" where
  "sft g conditions i out =
     (if i < length conditions then
        (if sft_half g then
           (case torch_split out (length out div 2) of
              Inl e \<Rightarrow> Inl e
            | Inr parts \<Rightarrow>
                (case unpack2 parts of
                   Inl e \<Rightarrow> Inl e
                 | Inr (out_same, out_sft) \<Rightarrow>
                     (case affine out_sft (conditions ! (i - 1)) (conditions ! i) of
                        Inl e \<Rightarrow> Inl e
                      | Inr out_sft' \<Rightarrow>
                          Inr (out_same @ out_sft',
                               SFT i (conditions ! (i - 1)) (conditions ! i)))))
         else
           (case affine out (conditions ! (i - 1)) (conditions ! i) of
              Inl e \<Rightarrow> Inl e
            | Inr out' \<Rightarrow> Inr (out', SFT i (conditions ! (i - 1)) (conditions ! i))))
      else Inr (out, NoSFT i))"

text \<open>
  Lines 109-125: the loop over the zipped layers. The state is \<open>(out, skip, i, trace)\<close>;
  one element of \<open>levels\<close> is \<open>(conv1, conv2, noise1, noise2, to_rgb)\<close>.
\<close>

type_synonym ('a, 'l, 'n) level =
  "('a, 'l, 'n) style_conv \<times> ('a, 'l, 'n) style_conv \<times> 'n option \<times> 'n option \<times> ('a, 'l) to_rgb"

fun main_generation ::
  "('a::{times,plus}, 'l, 'n) generator \<Rightarrow> 'a list list \<Rightarrow> 'l list \<Rightarrow> ('a, 'l, 'n) level list
     \<Rightarrow> 'a list \<times> 'a list \<times> nat \<times> 'a event list
     \<Rightarrow> error + ('a list \<times> 'a list \<times> nat \<times> 'a event list)" where
  "main_generation g conditions latent [] st = Inr st"
| "main_generation g conditions latent ((conv1, conv2, noise1, noise2, to_rgb) # rest)
       (out, skip, i, tr) =
     (case index latent i of
        Inl e \<Rightarrow> Inl e
      | Inr l0 \<Rightarrow>
          (case sft g conditions i (conv1 out l0 noise1) of
             Inl e \<Rightarrow> Inl e
           | Inr (out1, ev) \<Rightarrow>
               (case index latent (i + 1) of
                  Inl e \<Rightarrow> Inl e
                | Inr l1 \<Rightarrow>
                    (case index latent (i + 2) of
                       Inl e \<Rightarrow> Inl e
                     | Inr l2 \<Rightarrow>
                         main_generation g conditions latent rest
                           (conv2 out1 l1 noise2,
                            to_rgb (conv2 out1 l1 noise2) l2 (Some skip),
                            i + 2,
                            tr @ [ev, ToRGB (i + 2)])))))"


text \<open>The five-way \<^verbatim>\<open>zip\<close> of line 109: as long as the shortest of its arguments.\<close>

definition levels_of ::
  "('a, 'l, 'n) generator \<Rightarrow> 'n option list \<Rightarrow> ('a, 'l, 'n) level list" where
  "levels_of g noise =
     zip (every_other (style_convs g))
       (zip (every_other (drop 1 (style_convs g)))
         (zip (every_other (drop 1 noise))
           (zip (every_other (drop 2 noise)) (to_rgbs g))))"

text \<open>
  \<^verbatim>\<open>StyleGAN2GeneratorSFT.forward\<close>, lines 72-106: everything before the loop. None of
  it reads the conditions. It returns the latent, the noise list, the feature map after
  the first style convolution and the first to-RGB image. \<open>raw\<close> is the raw output of
  the random generator, read only when the injection index is drawn.
\<close>

definition forward_setup ::
  "('a, 'l::{plus,minus,scaleR}, 'n) generator \<Rightarrow> 'l style list \<Rightarrow> bool
     \<Rightarrow> 'n option list option \<Rightarrow> bool \<Rightarrow> real \<Rightarrow> 'l option \<Rightarrow> int option \<Rightarrow> nat
     \<Rightarrow> error + ('l list \<times> 'n option list \<times> 'a list \<times> 'a list)" where
  "forward_setup g styles input_is_latent noise randomize_noise truncation
       truncation_latent inject_index raw =
     (let styles1 = (if \<not> input_is_latent then map (style_mlp g) styles else styles) in
      case resolve_noise g noise randomize_noise of
        Inl e \<Rightarrow> Inl e
      | Inr noise1 \<Rightarrow>
      (case style_truncation truncation truncation_latent styles1 of
        Inl e \<Rightarrow> Inl e
      | Inr styles2 \<Rightarrow>
      (case get_latent g styles2 inject_index raw of
        Inl e \<Rightarrow> Inl e
      | Inr latent \<Rightarrow>
      (case index latent 0 of
        Inl e \<Rightarrow> Inl e
      | Inr l0 \<Rightarrow>
      (case index noise1 0 of
        Inl e \<Rightarrow> Inl e
      | Inr n0 \<Rightarrow>
      (case index latent 1 of
        Inl e \<Rightarrow> Inl e
      | Inr l1 \<Rightarrow>
          Inr (latent, noise1,
               style_conv1 g (constant_input g) l0 n0,
               to_rgb1 g (style_conv1 g (constant_input g) l0 n0) l1 None)))))))"

text \<open>
  \<^verbatim>\<open>StyleGAN2GeneratorSFT.forward\<close>, its arguments in the order of the source: the
  set-up, the loop from \<open>i = 1\<close>, and the result, whose image is the last \<open>skip\<close>.
\<close>

definition forward ::
  "('a::{times,plus}, 'l::{plus,minus,scaleR}, 'n) generator \<Rightarrow> 'l style list \<Rightarrow> 'a list list
     \<Rightarrow> bool \<Rightarrow> 'n option list option \<Rightarrow> bool \<Rightarrow> real \<Rightarrow> 'l option \<Rightarrow> int option \<Rightarrow> bool
     \<Rightarrow> nat \<Rightarrow> error + ('a, 'l) forward_result" where
  "forward g styles conditions input_is_latent noise randomize_noise truncation
       truncation_latent inject_index return_latents raw =
     (case forward_setup g styles input_is_latent noise randomize_noise truncation
             truncation_latent inject_index raw of
        Inl e \<Rightarrow> Inl e
      | Inr (latent, noise1, out, skip) \<Rightarrow>
          (case main_generation g conditions latent (levels_of g noise1)
                  (out, skip, 1, [ToRGB 1]) of
             Inl e \<Rightarrow> Inl e
           | Inr (out', skip', i', tr) \<Rightarrow>
               Inr \<lparr>image = skip',
                    latent_out = (if return_latents then Some latent else None),
                    trace = tr\<rparr>))"






subsection \<open>ConvUpLayer\<close>

text \<open>
  The activation module the constructor installs: \<^verbatim>\<open>FusedLeakyReLU(out_channels)\<close>,
  which carries a bias of its own, one per output channel, or
  \<^verbatim>\<open>ScaledLeakyReLU(0.2)\<close>, which has none.
\<close>

datatype activation = FusedLeakyReLU int | ScaledLeakyReLU real

text \<open>
  The object \<^verbatim>\<open>ConvUpLayer.__init__\<close> builds. The weight is drawn at random: the model
  keeps its shape. \<open>bias\<close> is the free bias parameter, \<^verbatim>\<open>None\<close> when it is not
  registered.
\<close>

record conv_up_layer =
  in_channels :: int
  out_channels :: int
  kernel_size :: int
  stride :: int
  padding :: int
  scale :: real
  weight_shape :: "int list"
  bias :: "real list option"
  activation :: "activation option"

text \<open>
  What the constructor's expressions can raise. \<^verbatim>\<open>math.sqrt\<close> first converts its integer
  argument to a float, which overflows from \<open>2^1024 - 2^970\<close> on (the least integer
  that rounds beyond the largest float), and then rejects a negative number. Creating a
  tensor fails for a negative size, for a size that is not a 64-bit integer, and for more
  elements than the allocator provides; the last depends on the machine and is the
  parameter \<open>capacity\<close>, a number of elements.
\<close>

definition py_float :: "int \<Rightarrow> error + real" where
  "py_float n = (if \<bar>n\<bar> < 2 ^ 1024 - 2 ^ 970 then Inr (of_int n) else Inl OverflowError)"

definition math_sqrt :: "int \<Rightarrow> error + real" where
  "math_sqrt n =
     (case py_float n of
        Inl e \<Rightarrow> Inl e
      | Inr x \<Rightarrow> if x < 0 then Inl ValueError else Inr (sqrt x))"

definition new_tensor :: "nat \<Rightarrow> int list \<Rightarrow> error + int list" where
  "new_tensor capacity shape =
     (if list_all (\<lambda>d. 0 \<le> d \<and> d < 2 ^ 63) shape \<and> prod_list shape \<le> int capacity
      then Inr shape else Inl RuntimeError)"

text \<open>
  \<^verbatim>\<open>ConvUpLayer.__init__\<close> (defaults of the source: stride 1, padding 0, bias true,
  bias_init_val 0, activate true), in the order of its statements: the scale (line 165),
  the weight (line 167), the bias (lines 169-172), the activation (lines 175-181). The
  only failures are those of the expressions it evaluates. No branch raises on a
  combination of \<open>bias\<close> and \<open>activate\<close>.
\<close>

definition ConvUpLayer ::
  "nat \<Rightarrow> int \<Rightarrow> int \<Rightarrow> int \<Rightarrow> int \<Rightarrow> int \<Rightarrow> bool \<Rightarrow> real \<Rightarrow> bool
     \<Rightarrow> error + conv_up_layer" where
  "ConvUpLayer capacity in_c out_c k strd pad use_bias bias_init_val activate =
     (case math_sqrt (in_c * k\<^sup>2) of
        Inl e \<Rightarrow> Inl e
      | Inr sq \<Rightarrow>
      if sq = 0 then Inl ZeroDivisionError
      else
      (case new_tensor capacity [out_c, in_c, k, k] of
        Inl e \<Rightarrow> Inl e
      | Inr weight \<Rightarrow>
      (case (if use_bias \<and> \<not> activate
             then (case new_tensor capacity [out_c] of
                     Inl e \<Rightarrow> Inl e
                   | Inr b \<Rightarrow> Inr (Some (replicate (nat out_c) bias_init_val)))
             else Inr None) of
        Inl e \<Rightarrow> Inl e
      | Inr free_bias \<Rightarrow>
      (case (if activate
             then (if use_bias
                   then (case new_tensor capacity [out_c] of
                           Inl e \<Rightarrow> Inl e
                         | Inr b \<Rightarrow> Inr (Some (FusedLeakyReLU out_c)))
                   else Inr (Some (ScaledLeakyReLU (2 / 10))))
             else Inr None) of
        Inl e \<Rightarrow> Inl e
      | Inr act \<Rightarrow>
          Inr \<lparr>in_channels = in_c, out_channels = out_c, kernel_size = k,
               stride = strd, padding = pad,
               scale = 1 / sq,
               weight_shape = weight,
               bias = free_bias,
               activation = act\<rparr>))))"

subsection \<open>FacialComponentDiscriminator\<close>

text \<open>
  The configuration of a \<^verbatim>\<open>ConvLayer\<close> of the base library, as the constructor calls
  give it: input channels, output channels, kernel size, downsample, bias, activate.
\<close>

datatype conv_layer = ConvLayer nat nat nat bool bool bool

fun conv_out_channels :: "conv_layer \<Rightarrow> nat" where
  "conv_out_channels (ConvLayer cin cout k down b act) = cout"

record discriminator =
  conv1 :: conv_layer
  conv2 :: conv_layer
  conv3 :: conv_layer
  conv4 :: conv_layer
  conv5 :: conv_layer
  final_conv :: conv_layer

definition FacialComponentDiscriminator :: discriminator where
  "FacialComponentDiscriminator =
     \<lparr>conv1 = ConvLayer 3 64 3 False True True,
      conv2 = ConvLayer 64 128 3 True True True,
      conv3 = ConvLayer 128 128 3 False True True,
      conv4 = ConvLayer 128 256 3 True True True,
      conv5 = ConvLayer 256 256 3 False True True,
      final_conv = ConvLayer 256 1 3 False True False\<rparr>"

text \<open>
  \<^verbatim>\<open>FacialComponentDiscriminator.forward\<close>. \<open>run\<close> applies a \<^verbatim>\<open>ConvLayer\<close> of the base
  library to a tensor; \<^verbatim>\<open>feat.clone()\<close> is the same value.
\<close>

definition discriminator_forward ::
  "(conv_layer \<Rightarrow> 't \<Rightarrow> 't) \<Rightarrow> discriminator \<Rightarrow> 't \<Rightarrow> bool \<Rightarrow> 't \<times> 't list option" where
  "discriminator_forward run d x return_feats =
     (let feat = run (conv1 d) x;
          feat = run (conv3 d) (run (conv2 d) feat);
          rlt_feats = [];
          rlt_feats = (if return_feats then rlt_feats @ [feat] else rlt_feats);
          feat = run (conv5 d) (run (conv4 d) feat);
          rlt_feats = (if return_feats then rlt_feats @ [feat] else rlt_feats);
          out = run (final_conv d) feat
      in if return_feats then (out, Some rlt_feats) else (out, None))"

subsection \<open>The expected trace\<close>


subsection \<open>Example instances\<close>

text \<open>
  Generators as the base class builds them for an output size of 8 (three style
  convolutions, four latent slices) and of 16 (five and six), over integer channel slices
  and real latent slices, with layers that pass the feature map on.
\<close>

definition gen8 :: "bool \<Rightarrow> (int, real, unit) generator" where
  "gen8 half =
     \<lparr>num_layers = 3, num_latent = 4, sft_half = half,
      style_mlp = (\<lambda>s. s), noises = [(), (), ()],
      constant_input = [1, 2, 3, 4],
      style_conv1 = (\<lambda>x l n. x), to_rgb1 = (\<lambda>x l skip. take 3 x),
      style_convs = [\<lambda>x l n. x, \<lambda>x l n. x],
      to_rgbs = [\<lambda>x l skip. take 3 x]\<rparr>"

definition gen16 :: "bool \<Rightarrow> (int, real, unit) generator" where
  "gen16 half =
     \<lparr>num_layers = 5, num_latent = 6, sft_half = half,
      style_mlp = (\<lambda>s. s), noises = [(), (), (), (), ()],
      constant_input = [1, 2, 3, 4],
      style_conv1 = (\<lambda>x l n. x), to_rgb1 = (\<lambda>x l skip. take 3 x),
      style_convs = [\<lambda>x l n. x, \<lambda>x l n. x, \<lambda>x l n. x, \<lambda>x l n. x],
      to_rgbs = [\<lambda>x l skip. take 3 x, \<lambda>x l skip. take 3 x]\<rparr>"

section \<open>Properties\<close>

subsection \<open>Tensor operations\<close>

lemma chunks_of_unfold:
  "0 < n \<Longrightarrow> xs \<noteq> [] \<Longrightarrow> chunks_of n xs = take n xs # chunks_of n (drop n xs)"
  by (cases xs) simp_all

lemma chunks_of_Nil: "0 < n \<Longrightarrow> chunks_of n xs = [] \<longleftrightarrow> xs = []"
  by (cases xs) simp_all

lemma chunks_of_pair:
  assumes "0 < n" "chunks_of n xs = [a, b]"
  shows "a = take n xs \<and> b = drop n xs \<and> length xs \<le> 2 * n"
proof -
  have ne: "xs \<noteq> []" using assms by auto
  from chunks_of_unfold[OF assms(1) ne] assms(2)
  have a: "a = take n xs" and r: "chunks_of n (drop n xs) = [b]" by simp_all
  have ne2: "drop n xs \<noteq> []" using r by auto
  from chunks_of_unfold[OF assms(1) ne2] r
  have b: "b = take n (drop n xs)" and r2: "chunks_of n (drop n (drop n xs)) = []" by simp_all
  from r2 have d: "drop n (drop n xs) = []" using chunks_of_Nil[OF assms(1)] by blast
  then have "take n (drop n xs) = drop n xs" by simp
  moreover from d have "length xs \<le> 2 * n" by simp
  ultimately show ?thesis using a b by simp
qed

text \<open>A successful split into two halves: the channel count is even and positive, and the
  two halves are the first and the last \<open>C div 2\<close> channels.\<close>

lemma split_halves:
  assumes "torch_split out (length out div 2) = Inr parts" "unpack2 parts = Inr (a, b)"
  shows "a = take (length out div 2) out \<and> b = drop (length out div 2) out \<and>
         length out = 2 * (length out div 2) \<and> 0 < length out"
proof -
  have p: "parts = [a, b]" using assms(2) by (cases parts rule: unpack2.cases) auto
  have n: "0 < length out div 2" and c: "chunks_of (length out div 2) out = [a, b]"
    using assms(1) p by (auto simp add: torch_split_def split: if_splits)
  from chunks_of_pair[OF n c] have ab: "a = take (length out div 2) out"
    "b = drop (length out div 2) out" and le: "length out \<le> 2 * (length out div 2)"
    by simp_all
  from le have "length out = 2 * (length out div 2)" by arith
  moreover from n have "0 < length out" by arith
  ultimately show ?thesis using ab by simp
qed

text \<open>With as many channels in the scale and the shift as in the feature map, the affine
  map is the channelwise \<open>x * scale + shift\<close>.\<close>

lemma affine_nth:
  assumes "length s = length x" "length t = length x"
  shows "affine x s t = Inr (map (\<lambda>c. x ! c * s ! c + t ! c) [0..<length x])"
  using assms
  by (auto simp add: affine_def tmul_def tadd_def broadcast_def intro!: nth_equalityI)

lemma style_truncation_one: "style_truncation 1 c styles = Inr styles"
  by (simp add: style_truncation_def)

subsection \<open>The SFT step\<close>

text \<open>
  C2. At a level where the SFT modulation is applied (\<open>i < length conditions\<close>, and the
  step returns): in half mode the channel count \<open>C\<close> is even, the first \<open>C div 2\<close> channels
  of the result are those of the input, unchanged, and the remaining channels are those
  of the input times the scale plus the shift; in full mode the whole result is the input
  times the scale plus the shift.
\<close>

theorem sft_half_and_full:
  assumes "i < length conditions" and "sft g conditions i out = Inr (out', ev)"
  shows "(sft_half g \<longrightarrow>
            length out = 2 * (length out div 2) \<and>
            take (length out div 2) out' = take (length out div 2) out \<and>
            affine (drop (length out div 2) out) (conditions ! (i - 1)) (conditions ! i)
              = Inr (drop (length out div 2) out')) \<and>
         (\<not> sft_half g \<longrightarrow>
            affine out (conditions ! (i - 1)) (conditions ! i) = Inr out')"
proof (cases "sft_half g")
  case True
  from assms True obtain parts a b r where
    1: "torch_split out (length out div 2) = Inr parts" and
    2: "unpack2 parts = Inr (a, b)" and
    3: "affine b (conditions ! (i - 1)) (conditions ! i) = Inr r" and
    4: "out' = a @ r"
    by (auto simp add: sft_def split: sum.splits)
  from split_halves[OF 1 2] 3 4 True show ?thesis by simp
next
  case False
  with assms show ?thesis by (auto simp add: sft_def split: sum.splits)
qed

theorem sft_half_and_full_witness:
  "sft (gen8 True) [[10, 10], [1, 1]] 1 [1, 2, 3, 4]
     = Inr ([1, 2, 31, 41], SFT 1 [10, 10] [1, 1]) \<and>
   take 2 [1, 2, 31, 41] = take 2 [1, 2, 3, 4 :: int] \<and>
   affine (drop 2 [1, 2, 3, 4]) [10, 10] [1, 1] = Inr (drop 2 [1, 2, 31, 41 :: int]) \<and>
   sft (gen8 False) [[10], [1]] 1 [1, 2, 3, 4] = Inr ([11, 21, 31, 41], SFT 1 [10] [1]) \<and>
   affine [1, 2, 3, 4] [10] [1] = Inr [11, 21, 31, 41 :: int]"
proof -
  have t: "sft (gen8 True) [[10, 10], [1, 1]] 1 [1, 2, 3, 4]
             = Inr ([1, 2, 31, 41], SFT 1 [10, 10] [1, 1])"
    by (simp add: sft_def gen8_def torch_split_def affine_def tmul_def tadd_def broadcast_def)
  have f: "sft (gen8 False) [[10], [1]] 1 [1, 2, 3, 4]
             = Inr ([11, 21, 31, 41], SFT 1 [10] [1])"
    by (simp add: sft_def gen8_def affine_def tmul_def tadd_def broadcast_def)
  have h: "sft_half (gen8 True)" "\<not> sft_half (gen8 False)" by (simp_all add: gen8_def)
  have i: "(1::nat) < length [[10, 10], [1, 1::int]]" "(1::nat) < length [[10], [1::int]]"
    by simp_all
  from sft_half_and_full[OF i(1) t] sft_half_and_full[OF i(2) f] t f h
  show ?thesis by simp
qed

subsection \<open>Truncation and latent expansion\<close>

text \<open>
  C8. With \<open>truncation = 1\<close> the truncation step returns the styles as they are, whatever
  they are, and \<open>forward\<close> does not read \<open>truncation_latent\<close>: the call with a centre
  and the call without one are the same.
\<close>

theorem truncation_one_is_identity:
  "style_truncation 1 truncation_latent styles = Inr styles \<and>
   forward g styles conditions input_is_latent noise randomize_noise 1 truncation_latent
       inject_index return_latents raw
     = forward g styles conditions input_is_latent noise randomize_noise 1 None
         inject_index return_latents raw"
  unfolding forward_def forward_setup_def style_truncation_one by simp

theorem truncation_one_is_identity_witness:
  "style_truncation 1 None [Style2d (7::real), Style3d [1, 2]] = Inr [Style2d 7, Style3d [1, 2]]"
  using truncation_one_is_identity [of None "[Style2d (7::real), Style3d [1, 2]]"]
  by simp

lemma forward_setup_latent:
  assumes "forward_setup g styles input_is_latent noise randomize_noise truncation
             truncation_latent inject_index raw = Inr (latent, noise1, out, skip)"
  shows "\<exists>styles2.
           style_truncation truncation truncation_latent
             (if \<not> input_is_latent then map (style_mlp g) styles else styles) = Inr styles2 \<and>
           get_latent g styles2 inject_index raw = Inr latent"
  using assms unfolding forward_setup_def Let_def
  by (auto split: sum.splits)

lemma forward_latent_out:
  assumes "forward g styles conditions input_is_latent noise randomize_noise truncation
             truncation_latent inject_index return_latents raw = Inr r"
  shows "\<exists>styles2 latent.
           style_truncation truncation truncation_latent
             (if \<not> input_is_latent then map (style_mlp g) styles else styles) = Inr styles2 \<and>
           get_latent g styles2 inject_index raw = Inr latent \<and>
           latent_out r = (if return_latents then Some latent else None)"
proof -
  from assms obtain latent noise1 out skip where
    fs: "forward_setup g styles input_is_latent noise randomize_noise truncation
           truncation_latent inject_index raw = Inr (latent, noise1, out, skip)" and
    lo: "latent_out r = (if return_latents then Some latent else None)"
    by (auto simp add: forward_def split: sum.splits prod.splits)
  from forward_setup_latent[OF fs] lo show ?thesis by blast
qed

text \<open>
  C5. One 2-dimensional style expands to a latent with \<open>num_latent\<close> layer slices, each of
  them the style itself; in a generator as the base class builds it, \<open>num_latent\<close> is the
  number of style convolutions plus one. It is the latent that \<open>forward\<close> returns when
  asked for it (here for a style that is already a latent, without truncation).
\<close>

theorem single_style_latent_repeats:
  "(\<exists>latent. get_latent g [Style2d v] inject_index raw = Inr latent \<and>
      length latent = num_latent g \<and>
      (\<forall>j<num_latent g. latent ! j = v) \<and>
      (wf_generator g \<longrightarrow> length latent = (1 + length (style_convs g)) + 1)) \<and>
   (\<forall>r. forward g [Style2d v] conditions True noise randomize_noise 1 truncation_latent
            inject_index True raw = Inr r
        \<longrightarrow> latent_out r = Some (replicate (num_latent g) v))"
proof (intro conjI allI impI)
  show "\<exists>latent. get_latent g [Style2d v] inject_index raw = Inr latent \<and>
      length latent = num_latent g \<and>
      (\<forall>j<num_latent g. latent ! j = v) \<and>
      (wf_generator g \<longrightarrow> length latent = (1 + length (style_convs g)) + 1)"
    by (simp add: get_latent_def wf_generator_def)
next
  fix r
  assume "forward g [Style2d v] conditions True noise randomize_noise 1 truncation_latent
            inject_index True raw = Inr r"
  from forward_latent_out[OF this] show "latent_out r = Some (replicate (num_latent g) v)"
    by (auto simp add: style_truncation_one get_latent_def)
qed

theorem single_style_latent_repeats_witness:
  "wf_generator (gen8 False) \<and>
   get_latent (gen8 False) [Style2d 7] None 0 = Inr [7, 7, 7, 7] \<and>
   1 + length (style_convs (gen8 False)) + 1 = 4 \<and>
   forward (gen8 False) [Style2d 7] [] True None True 1 None None True 0
     = Inr \<lparr>image = [1, 2, 3], latent_out = Some [7, 7, 7, 7],
            trace = [ToRGB 1, NoSFT 1, ToRGB 3]\<rparr>"
proof -
  let ?r = "\<lparr>image = [1, 2, 3], latent_out = Some [7, 7, 7, 7],
             trace = [ToRGB 1, NoSFT 1, ToRGB 3]\<rparr> :: (int, real) forward_result"
  have run: "forward (gen8 False) [Style2d 7] [] True None True 1 None None True 0 = Inr ?r"
    by (simp add: gen8_def forward_def forward_setup_def resolve_noise_def
          style_truncation_def get_latent_def index_def levels_of_def sft_def numeral_eq_Suc)
  note inst = single_style_latent_repeats [where g = "gen8 False" and v = 7
      and inject_index = None and raw = 0 and conditions = "[]" and noise = None
      and randomize_noise = True and truncation_latent = None]
  from inst run have "latent_out ?r = Some (replicate (num_latent (gen8 False)) 7)"
    by blast
  with run show ?thesis
    by (simp add: get_latent_def wf_generator_def gen8_def numeral_eq_Suc)
qed

text \<open>
  C6. Two 2-dimensional styles with a given injection index \<open>k\<close>, \<open>1 \<le> k \<le> num_latent - 1\<close>:
  the latent has \<open>num_latent\<close> layer slices, the first style at every layer below \<open>k\<close>
  and the second style at every layer from \<open>k\<close> on. It is the latent that \<open>forward\<close>
  returns when asked for it (here for styles that are already latents, without
  truncation).
\<close>

theorem two_styles_latent_mixes:
  assumes "1 \<le> k" and "k \<le> int (num_latent g) - 1"
  shows "(\<exists>latent. get_latent g [Style2d v1, Style2d v2] (Some k) raw = Inr latent \<and>
           length latent = num_latent g \<and>
           (\<forall>j. j < nat k \<longrightarrow> latent ! j = v1) \<and>
           (\<forall>j. nat k \<le> j \<and> j < num_latent g \<longrightarrow> latent ! j = v2)) \<and>
         (\<forall>r. forward g [Style2d v1, Style2d v2] conditions True noise randomize_noise 1
                  truncation_latent (Some k) True raw = Inr r
              \<longrightarrow> latent_out r
                    = Some (replicate (nat k) v1 @ replicate (num_latent g - nat k) v2))"
proof (intro conjI allI impI)
  show "\<exists>latent. get_latent g [Style2d v1, Style2d v2] (Some k) raw = Inr latent \<and>
           length latent = num_latent g \<and>
           (\<forall>j. j < nat k \<longrightarrow> latent ! j = v1) \<and>
           (\<forall>j. nat k \<le> j \<and> j < num_latent g \<longrightarrow> latent ! j = v2)"
    using assms by (auto simp add: get_latent_def mixing_index_def nth_append)
next
  fix r
  assume "forward g [Style2d v1, Style2d v2] conditions True noise randomize_noise 1
                  truncation_latent (Some k) True raw = Inr r"
  from forward_latent_out[OF this] assms
  show "latent_out r = Some (replicate (nat k) v1 @ replicate (num_latent g - nat k) v2)"
    by (auto simp add: style_truncation_one get_latent_def mixing_index_def nat_diff_distrib)
qed

theorem two_styles_latent_mixes_witness:
  "(1::int) \<le> 3 \<and> 3 \<le> int (num_latent (gen8 False)) - 1 \<and>
   get_latent (gen8 False) [Style2d 7, Style2d 9] (Some 3) 0 = Inr [7, 7, 7, 9]"
proof -
  have h: "(1::int) \<le> 3" "3 \<le> int (num_latent (gen8 False)) - 1"
    by (simp_all add: gen8_def)
  have e: "get_latent (gen8 False) [Style2d 7, Style2d 9] (Some 3) 0 = Inr [7, 7, 7, 9]"
    by (simp add: get_latent_def mixing_index_def gen8_def numeral_eq_Suc)
  from two_styles_latent_mixes [OF h, where ?v1.0 = 7 and ?v2.0 = 9 and raw = 0] h e
  show ?thesis by simp
qed

text \<open>
  C7, as the claim states it, fails: the index is drawn from \<open>1..num_latent - 1\<close>, and
  \<open>num_latent - 1\<close> is \<open>num_layers\<close>, one more than the claim's upper bound. In the
  generator for an output size of 8 (\<open>num_layers = 3\<close>) the draw can be 3, and the first
  style then fills three of the four latent slices.
\<close>

theorem mixing_index_range_counterexample:
  "wf_generator (gen8 False) \<and>
   mixing_index (gen8 False) None 2 = Inr 3 \<and>
   \<not> (3 \<le> int (num_layers (gen8 False)) - 1) \<and>
   get_latent (gen8 False) [Style2d 0, Style2d 5] None 2 = Inr [0, 0, 0, 5]"
  by (simp add: wf_generator_def gen8_def mixing_index_def randint_def get_latent_def
        numeral_eq_Suc)

text \<open>
  C7, amended. With two styles and no injection index given, the index drawn lies in
  \<open>1..num_latent - 1\<close> for every outcome of the draw, every value of that range is the
  outcome of some draw, and in a generator as the base class builds it the upper end
  \<open>num_latent - 1\<close> is \<open>num_layers\<close>.
\<close>

theorem mixing_index_range:
  assumes "2 \<le> num_latent g"
  shows "(\<exists>k. mixing_index g None raw = Inr k \<and> 1 \<le> k \<and> k \<le> int (num_latent g) - 1) \<and>
         (\<forall>k. 1 \<le> k \<and> k \<le> int (num_latent g) - 1
               \<longrightarrow> (\<exists>raw'. mixing_index g None raw' = Inr k)) \<and>
         (wf_generator g \<longrightarrow> int (num_latent g) - 1 = int (num_layers g))"
proof (intro conjI allI impI)
  define m where "m = int (num_latent g) - 1"
  have pos: "0 < m" using assms by (simp add: m_def)
  have lt: "int raw mod m < m" using pos by (rule pos_mod_bound)
  have ge: "0 \<le> int raw mod m" using pos by (rule pos_mod_sign)
  have eq: "mixing_index g None raw = Inr (1 + int raw mod m)"
    using pos by (simp add: mixing_index_def randint_def m_def)
  have "1 \<le> 1 + int raw mod m \<and> 1 + int raw mod m \<le> m" using lt ge by linarith
  with eq show "\<exists>k. mixing_index g None raw = Inr k \<and> 1 \<le> k \<and> k \<le> int (num_latent g) - 1"
    unfolding m_def by blast
next
  fix k assume k: "1 \<le> k \<and> k \<le> int (num_latent g) - 1"
  then have "int (nat (k - 1)) mod (int (num_latent g) - 1) = k - 1" by simp
  then have "mixing_index g None (nat (k - 1)) = Inr k"
    using k assms by (simp add: mixing_index_def randint_def)
  then show "\<exists>raw'. mixing_index g None raw' = Inr k" ..
next
  assume "wf_generator g"
  then show "int (num_latent g) - 1 = int (num_layers g)" by (simp add: wf_generator_def)
qed

theorem mixing_index_range_witness:
  "2 \<le> num_latent (gen16 False) \<and> wf_generator (gen16 False) \<and>
   mixing_index (gen16 False) None 7 = Inr 3 \<and>
   int (num_latent (gen16 False)) - 1 = 5 \<and> int (num_layers (gen16 False)) = 5"
proof -
  have h: "2 \<le> num_latent (gen16 False)" by (simp add: gen16_def)
  have e: "mixing_index (gen16 False) None 7 = Inr 3"
    by (simp add: mixing_index_def randint_def gen16_def)
  have w: "wf_generator (gen16 False)" by (simp add: wf_generator_def gen16_def)
  from mixing_index_range [OF h, of 7] h e w show ?thesis by (simp add: gen16_def)
qed









subsection \<open>ConvUpLayer: bias and activation\<close>

text \<open>Sizes beyond what a float or a 64-bit integer holds are refused, whatever the
  other arguments.\<close>

lemma math_sqrt_positive:
  "0 < n \<Longrightarrow> n < 2 ^ 1024 - 2 ^ 970 \<Longrightarrow> math_sqrt n = Inr (sqrt (of_int n))"
  by (simp add: math_sqrt_def py_float_def)

lemma ConvUpLayer_overflow:
  "2 ^ 1024 \<le> in_c * k\<^sup>2 \<Longrightarrow>
     ConvUpLayer capacity in_c out_c k strd pad use_bias v activate = Inl OverflowError"
  by (simp add: ConvUpLayer_def math_sqrt_def py_float_def)

lemma ConvUpLayer_size_limit:
  assumes "0 < in_c" "0 < k" "in_c * k\<^sup>2 < 2 ^ 1024 - 2 ^ 970" "2 ^ 63 \<le> out_c"
  shows "ConvUpLayer capacity in_c out_c k strd pad use_bias v activate = Inl RuntimeError"
proof -
  from assms(1,2) have pos: "0 < in_c * k\<^sup>2" by simp
  then have "math_sqrt (in_c * k\<^sup>2) = Inr (sqrt (of_int (in_c * k\<^sup>2)))"
    using assms(3) by (rule math_sqrt_positive)
  moreover have "sqrt (of_int (in_c * k\<^sup>2)) \<noteq> 0" using assms(1,2) by simp
  moreover have "new_tensor capacity [out_c, in_c, k, k] = Inl RuntimeError"
    using assms(4) by (simp add: new_tensor_def)
  ultimately show ?thesis by (simp add: ConvUpLayer_def)
qed

text \<open>
  C3, as the claim states it, fails: the constructor has no branch that rejects
  \<open>bias\<close> together with \<open>activate\<close>. Called with both (as \<^verbatim>\<open>ResUpBlock\<close> of the same
  file calls it for its second convolution) it returns a layer, without a free bias and
  with the fused activation.
\<close>

theorem ConvUpLayer_bias_and_activate_counterexample:
  "ConvUpLayer 1000 1 1 1 1 0 True 0 True =
     Inr \<lparr>in_channels = 1, out_channels = 1, kernel_size = 1, stride = 1, padding = 0,
          scale = 1, weight_shape = [1, 1, 1, 1], bias = None,
          activation = Some (FusedLeakyReLU 1)\<rparr>"
  by (simp add: ConvUpLayer_def math_sqrt_def py_float_def new_tensor_def)

text \<open>
  C3, amended. Requesting both \<open>bias\<close> and \<open>activate\<close> is not an error. For sizes a layer
  can be built for at all (positive input channels and kernel size, a non-negative number
  of output channels, \<open>in_channels * kernel_size\<^sup>2\<close> within the range of a float, every
  size a 64-bit integer, the weight within what the allocator provides) the constructor
  returns a layer, which has no free bias parameter and the fused activation, which
  carries the bias; and requesting both fails only where requesting the bias without the
  activation fails too. For every combination, a layer that is built has a free bias
  parameter exactly when \<open>bias\<close> is requested and \<open>activate\<close> is not, and the fused
  activation exactly when both are requested.
\<close>

theorem ConvUpLayer_bias_activation:
  "(0 < in_c \<and> 0 < k \<and> 0 \<le> out_c \<and> in_c * k\<^sup>2 < 2 ^ 1024 - 2 ^ 970 \<and>
    in_c < 2 ^ 63 \<and> k < 2 ^ 63 \<and> out_c < 2 ^ 63 \<and>
    out_c * (in_c * (k * k)) \<le> int capacity \<longrightarrow>
      (\<exists>l. ConvUpLayer capacity in_c out_c k strd pad True v True = Inr l \<and>
           bias l = None \<and> activation l = Some (FusedLeakyReLU out_c))) \<and>
   ((\<exists>l. ConvUpLayer capacity in_c out_c k strd pad True v False = Inr l) \<longrightarrow>
      (\<exists>l. ConvUpLayer capacity in_c out_c k strd pad True v True = Inr l \<and>
           bias l = None \<and> activation l = Some (FusedLeakyReLU out_c))) \<and>
   (\<forall>l. ConvUpLayer capacity in_c out_c k strd pad use_bias v activate = Inr l
        \<longrightarrow> (bias l \<noteq> None) = (use_bias \<and> \<not> activate) \<and>
            (activation l = Some (FusedLeakyReLU out_c)) = (use_bias \<and> activate))"
proof (intro conjI impI allI)
  assume a: "0 < in_c \<and> 0 < k \<and> 0 \<le> out_c \<and> in_c * k\<^sup>2 < 2 ^ 1024 - 2 ^ 970 \<and>
    in_c < 2 ^ 63 \<and> k < 2 ^ 63 \<and> out_c < 2 ^ 63 \<and>
    out_c * (in_c * (k * k)) \<le> int capacity"
  then have pos: "0 < in_c * k\<^sup>2" by simp
  from a have "in_c * k\<^sup>2 < 2 ^ 1024 - 2 ^ 970" by simp
  with pos have root: "math_sqrt (in_c * k\<^sup>2) = Inr (sqrt (of_int (in_c * k\<^sup>2)))"
    by (rule math_sqrt_positive)
  have nz: "sqrt (of_int (in_c * k\<^sup>2)) \<noteq> 0" using a by simp
  have w: "new_tensor capacity [out_c, in_c, k, k] = Inr [out_c, in_c, k, k]"
    using a by (simp add: new_tensor_def)
  have "1 * 1 \<le> k * k" using a by (intro mult_mono) simp_all
  then have "1 * 1 \<le> in_c * (k * k)" using a by (intro mult_mono) simp_all
  then have "out_c * 1 \<le> out_c * (in_c * (k * k))" using a by (intro mult_left_mono) simp_all
  with a have "out_c \<le> int capacity" by simp
  then have b: "new_tensor capacity [out_c] = Inr [out_c]"
    using a by (simp add: new_tensor_def)
  show "\<exists>l. ConvUpLayer capacity in_c out_c k strd pad True v True = Inr l \<and>
           bias l = None \<and> activation l = Some (FusedLeakyReLU out_c)"
    using root nz w b by (simp add: ConvUpLayer_def)
next
  assume "\<exists>l. ConvUpLayer capacity in_c out_c k strd pad True v False = Inr l"
  then obtain sq w b where
    "math_sqrt (in_c * k\<^sup>2) = Inr sq" "sq \<noteq> 0"
    "new_tensor capacity [out_c, in_c, k, k] = Inr w" "new_tensor capacity [out_c] = Inr b"
    by (auto simp add: ConvUpLayer_def split: sum.splits if_splits)
  then show "\<exists>l. ConvUpLayer capacity in_c out_c k strd pad True v True = Inr l \<and>
           bias l = None \<and> activation l = Some (FusedLeakyReLU out_c)"
    by (simp add: ConvUpLayer_def)
next
  fix l
  assume "ConvUpLayer capacity in_c out_c k strd pad use_bias v activate = Inr l"
  then show "(bias l \<noteq> None) = (use_bias \<and> \<not> activate)"
    by (auto simp add: ConvUpLayer_def split: sum.splits if_splits)
next
  fix l
  assume "ConvUpLayer capacity in_c out_c k strd pad use_bias v activate = Inr l"
  then show "(activation l = Some (FusedLeakyReLU out_c)) = (use_bias \<and> activate)"
    by (auto simp add: ConvUpLayer_def split: sum.splits if_splits)
qed

theorem ConvUpLayer_bias_activation_witness:
  "(case ConvUpLayer 1000 4 8 3 1 1 True 0 True of
      Inl e \<Rightarrow> False
    | Inr l \<Rightarrow> bias l = None \<and> activation l = Some (FusedLeakyReLU 8))"
proof -
  have "0 < (4::int) \<and> 0 < (3::int) \<and> 0 \<le> (8::int) \<and> (4::int) * 3\<^sup>2 < 2 ^ 1024 - 2 ^ 970 \<and>
    (4::int) < 2 ^ 63 \<and> (3::int) < 2 ^ 63 \<and> (8::int) < 2 ^ 63 \<and>
    (8::int) * (4 * (3 * 3)) \<le> int 1000"
    by simp
  with ConvUpLayer_bias_activation [where in_c = 4 and k = 3 and out_c = 8
      and capacity = 1000 and strd = 1 and pad = 1 and v = 0]
  obtain l where "ConvUpLayer 1000 4 8 3 1 1 True 0 True = Inr l" "bias l = None"
    "activation l = Some (FusedLeakyReLU 8)" by blast
  then show ?thesis by simp
qed

subsection \<open>FacialComponentDiscriminator: the returned features\<close>

text \<open>
  C9. With \<open>return_feats\<close> the discriminator returns exactly two features: the output of
  \<open>conv3\<close> (after \<open>conv1\<close> and \<open>conv2\<close>) and the output of \<open>conv5\<close> (after \<open>conv4\<close> on the
  first feature). As a \<^verbatim>\<open>ConvLayer\<close> yields as many channels as it is configured for,
  they have 128 and 256 channels.
\<close>

theorem discriminator_return_feats:
  "\<exists>out f3 f5.
     discriminator_forward run FacialComponentDiscriminator x True = (out, Some [f3, f5]) \<and>
     f3 = run (conv3 FacialComponentDiscriminator)
            (run (conv2 FacialComponentDiscriminator)
              (run (conv1 FacialComponentDiscriminator) x)) \<and>
     f5 = run (conv5 FacialComponentDiscriminator)
            (run (conv4 FacialComponentDiscriminator) f3) \<and>
     conv_out_channels (conv3 FacialComponentDiscriminator) = 128 \<and>
     conv_out_channels (conv5 FacialComponentDiscriminator) = 256 \<and>
     ((\<forall>l t. channels (run l t) = conv_out_channels l)
        \<longrightarrow> channels f3 = 128 \<and> channels f5 = 256)"
  by (simp add: discriminator_forward_def FacialComponentDiscriminator_def Let_def)

theorem discriminator_return_feats_witness:
  "discriminator_forward (\<lambda>l t. conv_out_channels l) FacialComponentDiscriminator (3::nat) True
     = (1, Some [128, 256])"
  using discriminator_return_feats [of "\<lambda>l t. conv_out_channels l" "3::nat" "\<lambda>c. c"]
  by (simp add: discriminator_forward_def FacialComponentDiscriminator_def Let_def)

subsection \<open>The generation loop\<close>









lemma index_Inl: "index xs i = Inl e \<longleftrightarrow> \<not> i < length xs \<and> e = IndexError"
  by (auto simp add: index_def)





































end
